theory Spec2Isabelle
  imports Main
begin

section \<open>Library functions the script calls on strings\<close>

text \<open>
  \<open>health.py\<close> is a single-shot probe: it resolves a service name, reads the section of
  that service from \<open>./tripleo-healthchecks.conf\<close>, issues one HTTP GET, logs the JSON
  payload and, when the answer is unhealthy and the section says so, asks systemd to
  restart the unit. The functions of the Python standard library it relies on are
  written out here as far as the script's behaviour depends on them.
\<close>

subsection \<open>\<open>str.rfind\<close> and \<open>os.path.splitext\<close>\<close>

text \<open>\<open>p.rfind(c)\<close>: the highest index at which \<open>c\<close> occurs in \<open>p\<close>, or \<open>-1\<close>.\<close>

primrec rfind :: "char \<Rightarrow> string \<Rightarrow> int" where
  "rfind c [] = - 1"
| "rfind c (x # xs) =
     (let r = rfind c xs
      in if 0 \<le> r then r + 1 else if x = c then 0 else - 1)"

text \<open>
  The loop of \<open>genericpath._splitext\<close> that skips the leading dots of the last path
  component: it returns the split at \<open>dotIndex\<close> as soon as it meets a character other than
  the dot, and the unsplit path when it runs into \<open>dotIndex\<close>.
\<close>

function splitext_scan :: "string \<Rightarrow> int \<Rightarrow> int \<Rightarrow> string \<times> string" where
  "splitext_scan p filenameIndex dotIndex =
     (if filenameIndex < dotIndex
      then (if take 1 (drop (nat filenameIndex) p) \<noteq> ''.''
            then (take (nat dotIndex) p, drop (nat dotIndex) p)
            else splitext_scan p (filenameIndex + 1) dotIndex)
      else (p, ''''))"
  by pat_completeness auto
termination
  by (relation "measure (\<lambda>(p, filenameIndex, dotIndex). nat (dotIndex - filenameIndex))") auto

declare splitext_scan.simps [simp del]

text \<open>\<open>posixpath.splitext\<close>: separator \<open>/\<close>, no alternative separator, extension separator \<open>.\<close>.\<close>

definition splitext :: "string \<Rightarrow> string \<times> string" where
  "splitext p =
     (let sepIndex = rfind CHR ''/'' p;
          dotIndex = rfind CHR ''.'' p
      in if dotIndex > sepIndex then splitext_scan p (sepIndex + 1) dotIndex else (p, ''''))"

subsection \<open>\<open>str.split\<close>, \<open>str.strip\<close>, \<open>str.lower\<close>, \<open>int\<close> and \<open>str\<close> of an integer\<close>

text \<open>
  \<open>s.split(sep)\<close> for a one-character separator: every occurrence of the separator ends
  a field, so the result is never empty and \<open>''.split(',')\<close> is \<open>['']\<close>.
\<close>

primrec py_split :: "char \<Rightarrow> string \<Rightarrow> string list" where
  "py_split sep [] = [[]]"
| "py_split sep (c # cs) =
     (if c = sep then [] # py_split sep cs
      else (case py_split sep cs of
              [] \<Rightarrow> [[c]]
            | f # fs \<Rightarrow> (c # f) # fs))"

definition is_space :: "char \<Rightarrow> bool" where
  "is_space c = (c \<in> set [CHR '' '', CHR 0x09, CHR 0x0A, CHR 0x0B, CHR 0x0C, CHR 0x0D])"

definition py_strip :: "string \<Rightarrow> string" where
  "py_strip s = rev (dropWhile is_space (rev (dropWhile is_space s)))"

definition lower_char :: "char \<Rightarrow> char" where
  "lower_char c =
     (let n = (of_char c :: nat)
      in if of_char CHR ''A'' \<le> n \<and> n \<le> of_char CHR ''Z'' then char_of (n + 32) else c)"

definition py_lower :: "string \<Rightarrow> string" where
  "py_lower s = map lower_char s"

definition is_digit :: "char \<Rightarrow> bool" where
  "is_digit c =
     (let n = (of_char c :: nat) in of_char CHR ''0'' \<le> n \<and> n \<le> of_char CHR ''9'')"

definition digit_val :: "char \<Rightarrow> nat" where
  "digit_val c = (of_char c :: nat) - of_char CHR ''0''"

text \<open>
  The digits of a decimal literal as \<open>int()\<close> reads them: at least one digit, and single
  underscores allowed between digits only. \<open>prev\<close> says that the character before was a
  digit.
\<close>

fun py_digits :: "bool \<Rightarrow> nat \<Rightarrow> string \<Rightarrow> nat option" where
  "py_digits prev acc [] = (if prev then Some acc else None)"
| "py_digits prev acc (c # cs) =
     (if is_digit c then py_digits True (10 * acc + digit_val c) cs
      else if c = CHR ''_'' \<and> prev then py_digits False acc cs
      else None)"

text \<open>
  \<open>int(s)\<close> on a string, base ten: surrounding whitespace is dropped, one sign is allowed.
  \<open>None\<close> stands for the \<open>ValueError\<close> that \<open>int\<close> raises.
\<close>

definition py_int :: "string \<Rightarrow> int option" where
  "py_int s =
     (case py_strip s of
        [] \<Rightarrow> None
      | c # cs \<Rightarrow>
          if c = CHR ''-'' then map_option (\<lambda>n. - int n) (py_digits False 0 cs)
          else if c = CHR ''+'' then map_option int (py_digits False 0 cs)
          else map_option int (py_digits False 0 (c # cs)))"

text \<open>\<open>str(n)\<close> for a natural number and for an integer.\<close>

definition digit_char :: "nat \<Rightarrow> char" where
  "digit_char d = ''0123456789'' ! (d mod 10)"

fun str_nat :: "nat \<Rightarrow> string" where
  "str_nat n = (if n < 10 then [digit_char n] else str_nat (n div 10) @ [digit_char n])"

declare str_nat.simps [simp del]

definition str_int :: "int \<Rightarrow> string" where
  "str_int i = (if i < 0 then CHR ''-'' # str_nat (nat (- i)) else str_nat (nat i))"

text \<open>\<open>sep.join(xs)\<close>.\<close>

fun py_join :: "string \<Rightarrow> string list \<Rightarrow> string" where
  "py_join sep [] = []"
| "py_join sep [x] = x"
| "py_join sep (x # y # ys) = x @ sep @ py_join sep (y # ys)"

section \<open>\<open>json.dumps\<close> with its default arguments\<close>

text \<open>
  A Python float is carried as what decides its \<open>repr\<close>: not-a-number, an infinity, or
  the sign, the shortest decimal digits and the position of the decimal point (the value
  is \<open>0.d\<^sub>1d\<^sub>2\<dots> \<times> 10\<^bsup>decpt\<^esup>\<close>). No arithmetic is done on floats by the script.
\<close>

datatype pyfloat = NaN | Infinity | NegInfinity | Finite bool "nat list" int

text \<open>The exponent as \<open>%+.02d\<close> prints it.\<close>

definition exp_str :: "int \<Rightarrow> string" where
  "exp_str e =
     (let a = nat (abs e)
      in (if e < 0 then ''-'' else ''+'') @ (if a < 10 then ''0'' else []) @ str_nat a)"

text \<open>
  \<open>float.__repr__\<close> (format code \<open>r\<close>): exponent notation when \<open>decpt \<le> -4\<close> or
  \<open>decpt > 16\<close>, and \<open>.0\<close> added to an integral value otherwise.
\<close>

definition float_digits :: "nat list \<Rightarrow> int \<Rightarrow> string" where
  "float_digits ds decpt =
     (let digits = map digit_char ds; len = int (length ds)
      in if decpt \<le> - 4 \<or> decpt > 16
         then take 1 digits @ (if 1 < len then ''.'' @ drop 1 digits else [])
              @ ''e'' @ exp_str (decpt - 1)
         else if decpt \<le> 0 then ''0.'' @ replicate (nat (- decpt)) CHR ''0'' @ digits
         else if decpt < len
           then take (nat decpt) digits @ ''.'' @ drop (nat decpt) digits
         else digits @ replicate (nat (decpt - len)) CHR ''0'' @ ''.0'')"

text \<open>The text \<open>json.dumps\<close> writes for a float (\<open>allow_nan\<close> is on by default).\<close>

fun float_str :: "pyfloat \<Rightarrow> string" where
  "float_str NaN = ''NaN''"
| "float_str Infinity = ''Infinity''"
| "float_str NegInfinity = ''-Infinity''"
| "float_str (Finite neg ds decpt) = (if neg then ''-'' else []) @ float_digits ds decpt"

text \<open>
  A string of a JSON value is a list of code points. With \<open>ensure_ascii\<close> (the default),
  backslash, double quote and every code point outside \<open>' '..'~'\<close> are escaped; a code
  point beyond the basic plane is written as a surrogate pair.
\<close>

definition hex_digit :: "nat \<Rightarrow> char" where
  "hex_digit d = ''0123456789abcdef'' ! (d mod 16)"

definition hex4 :: "nat \<Rightarrow> string" where
  "hex4 n = [hex_digit (n div 4096), hex_digit (n div 256), hex_digit (n div 16), hex_digit n]"

definition escape_ascii :: "nat \<Rightarrow> string" where
  "escape_ascii n =
     (if n = 0x5C then [CHR 0x5C, CHR 0x5C]
      else if n = 0x22 then [CHR 0x5C, CHR 0x22]
      else if n = 0x08 then [CHR 0x5C, CHR ''b'']
      else if n = 0x0C then [CHR 0x5C, CHR ''f'']
      else if n = 0x0A then [CHR 0x5C, CHR ''n'']
      else if n = 0x0D then [CHR 0x5C, CHR ''r'']
      else if n = 0x09 then [CHR 0x5C, CHR ''t'']
      else if 0x20 \<le> n \<and> n \<le> 0x7E then [char_of n]
      else if n < 0x10000 then [CHR 0x5C, CHR ''u''] @ hex4 n
      else [CHR 0x5C, CHR ''u''] @ hex4 (0xD800 + ((n - 0x10000) div 1024) mod 1024)
           @ [CHR 0x5C, CHR ''u''] @ hex4 (0xDC00 + (n - 0x10000) mod 1024))"

definition encode_basestring_ascii :: "nat list \<Rightarrow> string" where
  "encode_basestring_ascii s = [CHR 0x22] @ concat (map escape_ascii s) @ [CHR 0x22]"

text \<open>
  What \<open>json.loads\<close> returns: \<open>None\<close>, a bool, an int, a float, a str, a list or a dict
  with string keys (kept in insertion order).
\<close>

datatype json =
    JNull
  | JBool bool
  | JInt int
  | JFloat pyfloat
  | JStr "nat list"
  | JArr "json list"
  | JObj "(nat list \<times> json) list"

text \<open>
  \<open>json.dumps(v)\<close>: no indentation, item separator \<open>', '\<close>, key separator \<open>': '\<close>.
\<close>

fun json_dumps :: "json \<Rightarrow> string" where
  "json_dumps JNull = ''null''"
| "json_dumps (JBool b) = (if b then ''true'' else ''false'')"
| "json_dumps (JInt i) = str_int i"
| "json_dumps (JFloat f) = float_str f"
| "json_dumps (JStr s) = encode_basestring_ascii s"
| "json_dumps (JArr vs) = ''['' @ py_join '', '' (map json_dumps vs) @ '']''"
| "json_dumps (JObj kvs) =
     ''{'' @ py_join '', ''
              (map (\<lambda>kv. encode_basestring_ascii (fst kv) @ '': '' @ json_dumps (snd kv)) kvs)
     @ ''}''"

section \<open>The world the script runs in\<close>

subsection \<open>Exceptions and the exit status\<close>

text \<open>
  The exceptions that can travel through the script. \<open>sys.exit(n)\<close> raises
  \<open>SystemExit n\<close>. \<open>ConfigParserError\<close> stands for the subclasses of
  \<open>configparser.Error\<close> other than the two named ones; none of them is a
  \<open>LookupError\<close>.
\<close>

datatype exn =
    FileNotFoundError string
  | LookupError string
  | ConfigParserError string
  | NoSectionError string
  | NoOptionError string string
  | ValueError string
  | RequestException string
  | JSONDecodeError string
  | DBusException string
  | SystemExit int

text \<open>
  The status the interpreter hands to its parent: the argument of \<open>sys.exit\<close>, and 1
  (after a traceback) for any other exception that nothing caught.
\<close>

fun exit_status :: "exn \<Rightarrow> int" where
  "exit_status (SystemExit n) = n mod 256"
| "exit_status e = 1"

text \<open>
  \<open>run_check\<close> returns the integer 1 on one path and a bool on the other;
  \<open>sys.exit\<close> takes a bool as the integer it is.
\<close>

datatype pyval = PyInt int | PyBool bool

fun sys_exit :: "pyval \<Rightarrow> exn" where
  "sys_exit (PyInt n) = SystemExit n"
| "sys_exit (PyBool b) = SystemExit (if b then 1 else 0)"

subsection \<open>The configuration store\<close>

text \<open>
  What \<open>ConfigParser.read\<close> has loaded: for each named section, the value that
  \<open>get\<close> yields for each option of the section (option names in lower case, the
  defaults merged in, interpolation done). The special section \<open>DEFAULT\<close> is never
  one of the named sections. A value on which interpolation would raise (a stray
  \<open>%\<close>) has no place in such a store: the configuration is the flat table of keys
  and values per section that the script takes it for.
\<close>

type_synonym cfg_section = "string \<rightharpoonup> string"
type_synonym store = "string \<rightharpoonup> cfg_section"

definition has_section :: "store \<Rightarrow> string \<Rightarrow> bool" where
  "has_section cfg s = (cfg s \<noteq> None)"

text \<open>\<open>cfg.get(section, option)\<close> without a fallback raises when either is missing.\<close>

definition cfg_get :: "store \<Rightarrow> string \<Rightarrow> string \<Rightarrow> exn + string" where
  "cfg_get cfg s opt =
     (case cfg s of
        None \<Rightarrow> Inl (NoSectionError s)
      | Some sec \<Rightarrow> (case sec opt of None \<Rightarrow> Inl (NoOptionError opt s) | Some v \<Rightarrow> Inr v))"

text \<open>\<open>cfg.get(section, option, fallback=d)\<close>: the fallback covers both missing cases.\<close>

definition cfg_get_fallback :: "store \<Rightarrow> string \<Rightarrow> string \<Rightarrow> string \<Rightarrow> string" where
  "cfg_get_fallback cfg s opt d =
     (case cfg s of
        None \<Rightarrow> d
      | Some sec \<Rightarrow> (case sec opt of None \<Rightarrow> d | Some v \<Rightarrow> v))"

text \<open>\<open>cfg.getint(section, option)\<close>: \<open>int\<close> of the value.\<close>

definition cfg_getint :: "store \<Rightarrow> string \<Rightarrow> string \<Rightarrow> exn + int" where
  "cfg_getint cfg s opt =
     (case cfg_get cfg s opt of
        Inl e \<Rightarrow> Inl e
      | Inr v \<Rightarrow> (case py_int v of None \<Rightarrow> Inl (ValueError v) | Some i \<Rightarrow> Inr i))"

text \<open>
  \<open>cfg.getboolean(section, option, fallback=d)\<close>: the fallback covers a missing
  section or option, not a value outside \<open>BOOLEAN_STATES\<close>, which raises
  \<open>ValueError\<close>.
\<close>

definition cfg_getboolean_fallback :: "store \<Rightarrow> string \<Rightarrow> string \<Rightarrow> bool \<Rightarrow> exn + bool" where
  "cfg_getboolean_fallback cfg s opt d =
     (case cfg s of
        None \<Rightarrow> Inr d
      | Some sec \<Rightarrow>
          (case sec opt of
             None \<Rightarrow> Inr d
           | Some v \<Rightarrow>
               if py_lower v \<in> set [''1'', ''yes'', ''true'', ''on''] then Inr True
               else if py_lower v \<in> set [''0'', ''no'', ''false'', ''off''] then Inr False
               else Inl (ValueError v)))"

subsection \<open>The file, the network, the JSON decoder and the system bus\<close>

text \<open>
  The file at \<open>./tripleo-healthchecks.conf\<close>: absent, present but rejected by the
  parser, or loaded.
\<close>

datatype conf_file = Absent | Unparsable string | Parsed store

text \<open>
  What \<open>requests.get(uri)\<close> does: a response with its status code and text, a
  \<open>requests.exceptions.ConnectionError\<close> (with what \<open>str\<close> gives for it), or another
  exception of \<open>requests\<close>.
\<close>

datatype http_result = Response int string | ConnectionError string | OtherRequestError string

text \<open>
  \<open>json_loads\<close> is the decoder (\<open>None\<close>: it raises \<open>JSONDecodeError\<close>).
  \<open>system_bus\<close> is \<open>Some m\<close> when getting the manager interface of systemd from the
  system bus raises a \<open>DBusException\<close> with text \<open>m\<close>. \<open>restart_unit name mode\<close>
  is \<open>Some m\<close> when the call \<open>RestartUnit\<close> raises one.
\<close>

record world =
  conf_file :: conf_file
  requests_get :: "string \<Rightarrow> http_result"
  json_loads :: "string \<Rightarrow> json option"
  system_bus :: "string option"
  restart_unit :: "string \<Rightarrow> string \<Rightarrow> string option"

text \<open>The parsed command line.\<close>

record args =
  service :: string
  debug :: bool

subsection \<open>What a run does to the outside\<close>

datatype level = DEBUG | INFO | CRITICAL

text \<open>
  The calls a run makes, in order: a call of the logger (logger name, level, message),
  the GET, the opening of the system bus, the restart request (unit name, mode).
\<close>

datatype event =
    Log string level string
  | HttpGet string
  | SystemBus
  | RestartUnit string string

section \<open>The script\<close>

subsection \<open>\<open>Healthcheck.__init__\<close>\<close>

text \<open>The service name the object keeps: the argument without its extension.\<close>

definition srv :: "args \<Rightarrow> string" where
  "srv a = fst (splitext (service a))"

definition logger_name :: "args \<Rightarrow> string" where
  "logger_name a = ''healthcheck.'' @ srv a"

text \<open>
  \<open>basicConfig\<close> sets the level to \<open>DEBUG\<close> under \<open>--debug\<close> and to \<open>INFO\<close>
  otherwise: the records that reach the log are the calls at or above it.
\<close>

definition enabled :: "args \<Rightarrow> level \<Rightarrow> bool" where
  "enabled a l = (debug a \<or> l \<noteq> DEBUG)"

fun logged :: "args \<Rightarrow> event list \<Rightarrow> (string \<times> level \<times> string) list" where
  "logged a [] = []"
| "logged a (Log n l m # es) = (if enabled a l then (n, l, m) # logged a es else logged a es)"
| "logged a (e # es) = logged a es"

subsection \<open>\<open>Healthcheck.load_config\<close>\<close>

definition cfile :: string where
  "cfile = ''./tripleo-healthchecks.conf''"

definition load_config :: "world \<Rightarrow> args \<Rightarrow> exn + store" where
  "load_config w a =
     (case conf_file w of
        Absent \<Rightarrow> Inl (FileNotFoundError (''Configuration file not found at '' @ cfile))
      | Unparsable m \<Rightarrow> Inl (ConfigParserError m)
      | Parsed cfg \<Rightarrow>
          if \<not> has_section cfg (srv a)
          then Inl (LookupError (''No configuration found for '' @ srv a))
          else Inr cfg)"

subsection \<open>\<open>Healthcheck.__restart_service\<close>\<close>

text \<open>
  The bus, the systemd object and the manager interface are obtained outside the
  \<open>try\<close>; only the call of \<open>RestartUnit\<close> is inside it, and its handler logs and
  calls \<open>sys.exit(1)\<close>.
\<close>

definition restart_service :: "world \<Rightarrow> args \<Rightarrow> event list \<times> (exn + unit)" where
  "restart_service w a =
     (case system_bus w of
        Some m \<Rightarrow> ([SystemBus], Inl (DBusException m))
      | None \<Rightarrow>
          (let t = [SystemBus,
                    Log (logger_name a) DEBUG
                      (''Trying to request restart on '' @ srv a @ '' service''),
                    RestartUnit (srv a @ ''.service'') ''fail'']
           in case restart_unit w (srv a @ ''.service'') ''fail'' of
                Some m \<Rightarrow> (t @ [Log (logger_name a) CRITICAL m], Inl (SystemExit 1))
              | None \<Rightarrow>
                  (t @ [Log (logger_name a) INFO
                          (''Successfuly requested restart on '' @ srv a @ '' service'')],
                   Inr ())))"

subsection \<open>\<open>Healthcheck.run_check\<close>\<close>

text \<open>
  The address of the check: the four lookups are made in this order, and the first
  that raises ends \<open>run_check\<close>.
\<close>

definition check_uri :: "store \<Rightarrow> string \<Rightarrow> exn + string" where
  "check_uri cfg s =
     (case cfg_getboolean_fallback cfg s ''tls'' False of
        Inl e \<Rightarrow> Inl e
      | Inr tls \<Rightarrow>
          (let proto = (if tls then ''s'' else '''')
           in case cfg_get cfg s ''host'' of
                Inl e \<Rightarrow> Inl e
              | Inr host \<Rightarrow>
                  (case cfg_getint cfg s ''port'' of
                     Inl e \<Rightarrow> Inl e
                   | Inr port \<Rightarrow>
                       (case cfg_get cfg s ''endpoint'' of
                          Inl e \<Rightarrow> Inl e
                        | Inr endpoint \<Rightarrow>
                            Inr (''http'' @ proto @ ''://'' @ host @ '':'' @ str_int port
                                 @ endpoint)))))"

text \<open>The list the script builds from \<open>on_failure_classes\<close> and never reads.\<close>

definition on_failure_classes :: "store \<Rightarrow> string \<Rightarrow> string list" where
  "on_failure_classes cfg s = py_split CHR '','' (cfg_get_fallback cfg s ''on_failure_classes'' '''')"

definition run_check :: "world \<Rightarrow> args \<Rightarrow> store \<Rightarrow> event list \<times> (exn + pyval)" where
  "run_check w a cfg =
     (case check_uri cfg (srv a) of
        Inl e \<Rightarrow> ([], Inl e)
      | Inr uri \<Rightarrow>
          (let t = [Log (logger_name a) DEBUG (''Running check against '' @ uri), HttpGet uri]
           in case requests_get w uri of
                ConnectionError m \<Rightarrow> (t @ [Log (logger_name a) CRITICAL m], Inr (PyInt 1))
              | OtherRequestError m \<Rightarrow> (t, Inl (RequestException m))
              | Response status_code text \<Rightarrow>
                  (let classes = on_failure_classes cfg (srv a)
                   in case json_loads w text of
                        None \<Rightarrow> (t, Inl (JSONDecodeError text))
                      | Some status \<Rightarrow>
                          (let healthy = (status_code \<in> set [200, 204]);
                               t = t @ [Log (logger_name a) INFO (json_dumps status)];
                               failure_action =
                                 cfg_get_fallback cfg (srv a) ''failure_action'' ''''
                           in if \<not> healthy \<and> failure_action = ''restart''
                              then (case restart_service w a of
                                      (r, Inl e) \<Rightarrow> (t @ r, Inl e)
                                    | (r, Inr u) \<Rightarrow> (t @ r, Inr (PyBool (\<not> healthy))))
                              else (t, Inr (PyBool (\<not> healthy)))))))"

subsection \<open>The main block\<close>

text \<open>
  A run: the calls it makes, and the exception that ends the process. Only
  \<open>FileNotFoundError\<close> and \<open>LookupError\<close> from \<open>load_config\<close> are caught; whatever
  \<open>run_check\<close> raises goes to the interpreter, and what it returns goes to
  \<open>sys.exit\<close>.
\<close>

definition main :: "world \<Rightarrow> args \<Rightarrow> event list \<times> exn" where
  "main w a =
     (let t = [Log (logger_name a) DEBUG (''Loading healthcheck for '' @ service a)]
      in case load_config w a of
           Inl (FileNotFoundError m) \<Rightarrow> (t @ [Log (logger_name a) CRITICAL m], SystemExit 2)
         | Inl (LookupError m) \<Rightarrow> (t @ [Log (logger_name a) CRITICAL m], SystemExit 2)
         | Inl e \<Rightarrow> (t, e)
         | Inr cfg \<Rightarrow>
             (case run_check w a cfg of
                (r, Inl e) \<Rightarrow> (t @ r, e)
              | (r, Inr v) \<Rightarrow> (t @ r, sys_exit v)))"

definition calls :: "world \<Rightarrow> args \<Rightarrow> event list" where
  "calls w a = fst (main w a)"

definition exit_code :: "world \<Rightarrow> args \<Rightarrow> int" where
  "exit_code w a = exit_status (snd (main w a))"

section \<open>Example runs\<close>

text \<open>
  The section of the specification's example: \<open>[nova-api]\<close> with
  \<open>host=127.0.0.1\<close>, \<open>port=8989\<close>, \<open>endpoint=/healthcheck\<close>, \<open>tls=false\<close>, and a
  service that answers 200 with the body \<open>{"detailed":false,"healthy":true}\<close>.
\<close>

definition nova_section :: cfg_section where
  "nova_section =
     [''host'' \<mapsto> ''127.0.0.1'', ''port'' \<mapsto> ''8989'', ''endpoint'' \<mapsto> ''/healthcheck'',
      ''tls'' \<mapsto> ''false'']"

definition nova_uri :: string where
  "nova_uri = ''http://127.0.0.1:8989/healthcheck''"

definition nova_body :: string where
  "nova_body =
     ''{'' @ [CHR 0x22] @ ''detailed'' @ [CHR 0x22] @ '':false,'' @ [CHR 0x22] @ ''healthy''
     @ [CHR 0x22] @ '':true}''"

definition nova_payload :: json where
  "nova_payload =
     JObj [(map of_char ''detailed'', JBool False), (map of_char ''healthy'', JBool True)]"

definition nova_line :: string where
  "nova_line =
     ''{'' @ [CHR 0x22] @ ''detailed'' @ [CHR 0x22] @ '': false, '' @ [CHR 0x22] @ ''healthy''
     @ [CHR 0x22] @ '': true}''"

definition nova_world :: world where
  "nova_world =
     \<lparr>conf_file = Parsed [''nova-api'' \<mapsto> nova_section],
      requests_get = (\<lambda>u. if u = nova_uri then Response 200 nova_body
                           else ConnectionError ''Connection refused''),
      json_loads = (\<lambda>t. if t = nova_body then Some nova_payload else None),
      system_bus = None,
      restart_unit = (\<lambda>name mode. None)\<rparr>"

definition nova_args :: args where
  "nova_args = \<lparr>service = ''nova-api.service'', debug = False\<rparr>"

text \<open>The same service answering 200 with a payload that says it is not healthy.\<close>

definition sick_payload :: json where
  "sick_payload = JObj [(map of_char ''healthy'', JBool False)]"

definition sick_line :: string where
  "sick_line = ''{'' @ [CHR 0x22] @ ''healthy'' @ [CHR 0x22] @ '': false}''"


text \<open>
  The service answering 503, first with no \<open>failure_action\<close>, then with
  \<open>failure_action=restart\<close>: the restart accepted, the restart refused by systemd, and
  no system bus to talk to.
\<close>

definition down_world :: world where
  "down_world =
     nova_world\<lparr>requests_get := (\<lambda>u. Response 503 nova_body),
                json_loads := (\<lambda>t. Some sick_payload)\<rparr>"

definition restart_section :: cfg_section where
  "restart_section = nova_section(''failure_action'' \<mapsto> ''restart'')"

definition restart_world :: world where
  "restart_world = down_world\<lparr>conf_file := Parsed [''nova-api'' \<mapsto> restart_section]\<rparr>"


definition no_bus_world :: world where
  "no_bus_world = restart_world\<lparr>system_bus := Some ''Failed to connect to socket''\<rparr>"

text \<open>No file, no section for the service, nobody listening, and a body that is not JSON.\<close>

definition no_file_world :: world where
  "no_file_world = nova_world\<lparr>conf_file := Absent\<rparr>"

definition no_section_world :: world where
  "no_section_world = nova_world\<lparr>conf_file := Parsed [''glance-api'' \<mapsto> nova_section]\<rparr>"

definition unreachable_world :: world where
  "unreachable_world =
     nova_world\<lparr>requests_get := (\<lambda>u. ConnectionError ''Connection refused'')\<rparr>"

definition garbled_world :: world where
  "garbled_world =
     nova_world\<lparr>requests_get := (\<lambda>u. Response 200 ''<html>busy</html>''),
                json_loads := (\<lambda>t. None)\<rparr>"

text \<open>The section without its port, and with a port that is not a number.\<close>

definition no_port_world :: world where
  "no_port_world =
     nova_world\<lparr>conf_file := Parsed [''nova-api'' \<mapsto> nova_section(''port'' := None)]\<rparr>"

definition bad_port_world :: world where
  "bad_port_world =
     nova_world\<lparr>conf_file := Parsed [''nova-api'' \<mapsto> nova_section(''port'' \<mapsto> ''http'')]\<rparr>"

text \<open>An argument that is nothing but an extension, and one with a dot in a directory only.\<close>

definition dotfile_args :: args where
  "dotfile_args = \<lparr>service = ''.service'', debug = False\<rparr>"

section \<open>Notions used to state the results\<close>

text \<open>A character that takes one column of one line: \<open>' '\<close> to \<open>'~'\<close>.\<close>

definition printable_ascii :: "char \<Rightarrow> bool" where
  "printable_ascii c = (let n = (of_char c :: nat) in 0x20 \<le> n \<and> n \<le> 0x7E)"

text \<open>
  The reading of the service name that takes a dot anywhere for the start of an
  extension: everything from the last dot on is dropped, and a name without a dot is
  kept. It is what \<open>srv\<close> is compared with.
\<close>

definition final_extension_removed :: "string \<Rightarrow> string" where
  "final_extension_removed s =
     (if CHR ''.'' \<in> set s then take (nat (rfind CHR ''.'' s)) s else s)"

section \<open>Facts about the library functions\<close>

subsection \<open>\<open>rfind\<close> and \<open>splitext\<close>\<close>

lemma rfind_absent: "c \<notin> set p \<Longrightarrow> rfind c p = - 1"
  by (induction p) (auto simp add: Let_def)

lemma rfind_lower: "- 1 \<le> rfind c p"
  by (induction p) (auto simp add: Let_def)

lemma rfind_upper: "rfind c p < int (length p)"
  by (induction p) (auto simp add: Let_def)

lemma rfind_last: "c \<notin> set ys \<Longrightarrow> rfind c (xs @ c # ys) = int (length xs)"
  by (induction xs) (auto simp add: Let_def rfind_absent)

lemma rfind_append_absent: "c \<notin> set ys \<Longrightarrow> rfind c (xs @ ys) = rfind c xs"
  by (induction xs) (auto simp add: Let_def rfind_absent)

lemma splitext_scan_found:
  "0 \<le> i \<Longrightarrow> i \<le> k \<Longrightarrow> k < d \<Longrightarrow> nat k < length p \<Longrightarrow> p ! nat k \<noteq> CHR ''.'' \<Longrightarrow>
   splitext_scan p i d = (take (nat d) p, drop (nat d) p)"
proof (induction p i d rule: splitext_scan.induct)
  case (1 p i d)
  show ?case
  proof (cases "take 1 (drop (nat i) p) \<noteq> ''.''")
    case True
    with 1 show ?thesis by (simp add: splitext_scan.simps [of p i d])
  next
    case False
    have "i \<noteq> k"
    proof
      assume "i = k"
      with 1 have "take 1 (drop (nat i) p) = [p ! nat k]"
        by (simp add: take_Suc_conv_app_nth)
      with False 1 show False by simp
    qed
    with 1 have "i + 1 \<le> k" by simp
    with 1 False have "splitext_scan p (i + 1) d = (take (nat d) p, drop (nat d) p)"
      by simp
    with 1 False show ?thesis by (simp add: splitext_scan.simps [of p i d])
  qed
qed

lemma splitext_scan_dots:
  "0 \<le> i \<Longrightarrow> (\<forall>k. i \<le> k \<and> k < d \<longrightarrow> nat k < length p \<and> p ! nat k = CHR ''.'') \<Longrightarrow>
   splitext_scan p i d = (p, '''')"
proof (induction p i d rule: splitext_scan.induct)
  case (1 p i d)
  show ?case
  proof (cases "i < d")
    case False
    then show ?thesis by (simp add: splitext_scan.simps [of p i d])
  next
    case True
    with 1 have "nat i < length p" and "p ! nat i = CHR ''.''" by auto
    then have t: "take 1 (drop (nat i) p) = ''.''"
      by (simp add: take_Suc_conv_app_nth)
    with True 1 have "splitext_scan p (i + 1) d = (p, '''')" by simp
    with True t show ?thesis by (simp add: splitext_scan.simps [of p i d])
  qed
qed

lemma splitext_no_dot: "CHR ''.'' \<notin> set p \<Longrightarrow> splitext p = (p, '''')"
  using rfind_lower [of "CHR ''/''" p] by (simp add: splitext_def rfind_absent)

lemma splitext_extension:
  assumes "stem = pre @ c # rest" and "c \<noteq> CHR ''.''" and "c \<noteq> CHR ''/''"
    and "CHR ''/'' \<notin> set rest" and "CHR ''.'' \<notin> set ext" and "CHR ''/'' \<notin> set ext"
  shows "splitext (stem @ CHR ''.'' # ext) = (stem, CHR ''.'' # ext)"
proof -
  let ?p = "stem @ CHR ''.'' # ext"
  have dot: "rfind CHR ''.'' ?p = int (length stem)"
    by (rule rfind_last) (use assms in simp)
  have "rfind CHR ''/'' (pre @ (c # rest @ CHR ''.'' # ext)) = rfind CHR ''/'' pre"
    using assms by (intro rfind_append_absent) simp
  then have sep: "rfind CHR ''/'' ?p = rfind CHR ''/'' pre"
    using assms by simp
  have lo: "- 1 \<le> rfind CHR ''/'' pre" by (rule rfind_lower)
  have hi: "rfind CHR ''/'' pre < int (length pre)" by (rule rfind_upper)
  have "splitext_scan ?p (rfind CHR ''/'' pre + 1) (int (length stem))
        = (take (nat (int (length stem))) ?p, drop (nat (int (length stem))) ?p)"
    using lo hi assms
    by (intro splitext_scan_found [where k = "int (length pre)"]) (auto simp add: nth_append)
  then have "splitext_scan ?p (rfind CHR ''/'' pre + 1) (int (length stem))
        = (stem, CHR ''.'' # ext)"
    by simp
  moreover have "rfind CHR ''/'' pre < int (length stem)"
    using hi assms by simp
  ultimately show ?thesis
    by (simp add: splitext_def dot sep)
qed

lemma splitext_leading_dots:
  assumes "pre = [] \<or> last pre = CHR ''/''" and "CHR ''.'' \<notin> set ext" and "CHR ''/'' \<notin> set ext"
  shows "splitext (pre @ replicate n CHR ''.'' @ ext) = (pre @ replicate n CHR ''.'' @ ext, '''')"
proof (cases n)
  case 0
  show ?thesis
  proof (cases "CHR ''.'' \<in> set pre")
    case False
    with assms 0 show ?thesis by (simp add: splitext_no_dot)
  next
    case True
    then have "pre \<noteq> []" by auto
    with assms obtain q where q: "pre = q @ ''/''"
      by (metis append_butlast_last_id)
    have "rfind CHR ''/'' ((q @ ''/'') @ ext) = rfind CHR ''/'' (q @ ''/'')"
      using assms by (intro rfind_append_absent) simp
    moreover have "rfind CHR ''/'' (q @ CHR ''/'' # []) = int (length q)"
      by (intro rfind_last) simp
    moreover have "rfind CHR ''.'' ((q @ ''/'') @ ext) = rfind CHR ''.'' (q @ ''/'')"
      using assms by (intro rfind_append_absent) simp
    moreover have "rfind CHR ''.'' (q @ ''/'') = rfind CHR ''.'' q"
      by (intro rfind_append_absent) simp
    moreover have "rfind CHR ''.'' q < int (length q)" by (rule rfind_upper)
    ultimately show ?thesis using 0 q by (simp add: splitext_def)
  qed
next
  case (Suc m)
  let ?p = "pre @ replicate n CHR ''.'' @ ext"
  have p: "?p = (pre @ replicate m CHR ''.'') @ CHR ''.'' # ext"
    using Suc by (simp add: replicate_append_same)
  have "rfind CHR ''.'' ((pre @ replicate m CHR ''.'') @ CHR ''.'' # ext)
        = int (length (pre @ replicate m CHR ''.''))"
    by (rule rfind_last) (use assms in simp)
  then have dot: "rfind CHR ''.'' ?p = int (length pre + m)"
    unfolding p by simp
  have "rfind CHR ''/'' (pre @ (replicate n CHR ''.'' @ ext)) = rfind CHR ''/'' pre"
    using assms by (intro rfind_append_absent) simp
  then have sep: "rfind CHR ''/'' ?p = rfind CHR ''/'' pre" by simp
  have sep': "rfind CHR ''/'' pre = int (length pre) - 1"
  proof (cases "pre = []")
    case True
    then show ?thesis by simp
  next
    case False
    with assms obtain q where q: "pre = q @ CHR ''/'' # []"
      by (metis append_butlast_last_id)
    have "rfind CHR ''/'' (q @ CHR ''/'' # []) = int (length q)"
      by (intro rfind_last) simp
    with q show ?thesis by simp
  qed
  have "splitext_scan ?p (int (length pre)) (int (length pre + m)) = (?p, '''')"
  proof (intro splitext_scan_dots allI impI conjI)
    show "0 \<le> int (length pre)" by simp
  next
    fix k assume k: "int (length pre) \<le> k \<and> k < int (length pre + m)"
    then have lt: "nat k < length pre + m" and ge: "length pre \<le> nat k" by linarith+
    from lt show "nat k < length ?p" using Suc by simp
    from lt have "nat k - length pre < n" using Suc by linarith
    with ge show "?p ! nat k = CHR ''.''"
      by (simp add: nth_append)
  qed
  then show ?thesis
    by (simp add: splitext_def dot sep sep')
qed

subsection \<open>The text of \<open>json.dumps\<close>\<close>

lemma digit_char_printable: "printable_ascii (digit_char d)"
proof -
  have "digit_char d \<in> set ''0123456789''"
    unfolding digit_char_def by (rule nth_mem) simp
  then show ?thesis by (auto simp add: printable_ascii_def)
qed

lemma hex_digit_printable: "printable_ascii (hex_digit d)"
proof -
  have "hex_digit d \<in> set ''0123456789abcdef''"
    unfolding hex_digit_def by (rule nth_mem) simp
  then show ?thesis by (auto simp add: printable_ascii_def)
qed

lemma str_nat_printable: "list_all printable_ascii (str_nat n)"
proof (induction n rule: str_nat.induct)
  case (1 n)
  then show ?case
    by (cases "n < 10") (simp_all add: str_nat.simps [of n] digit_char_printable)
qed

lemma separators_printable:
  "list_all printable_ascii '', ''" "list_all printable_ascii '': ''"
  "list_all printable_ascii ''[''" "list_all printable_ascii '']''"
  "list_all printable_ascii ''{''" "list_all printable_ascii ''}''"
  by (simp_all add: printable_ascii_def)

lemma str_int_printable: "list_all printable_ascii (str_int i)"
  by (simp add: str_int_def str_nat_printable printable_ascii_def)

lemma exp_str_printable: "list_all printable_ascii (exp_str e)"
  by (simp add: exp_str_def Let_def str_nat_printable printable_ascii_def)

lemma list_all_take_drop:
  "list_all P xs \<Longrightarrow> list_all P (take n xs) \<and> list_all P (drop n xs)"
  by (metis append_take_drop_id list_all_append)

lemma float_digits_printable: "list_all printable_ascii (float_digits ds decpt)"
proof -
  have d: "list_all printable_ascii (map digit_char ds)"
    by (simp add: list_all_iff digit_char_printable)
  have z: "\<And>k. list_all printable_ascii (replicate k CHR ''0'')"
    by (simp add: list_all_iff printable_ascii_def)
  show ?thesis
    using list_all_take_drop [OF d] z
    by (simp add: float_digits_def Let_def exp_str_printable d printable_ascii_def)
qed

lemma float_str_printable: "list_all printable_ascii (float_str f)"
  by (cases f) (simp_all add: float_digits_printable printable_ascii_def)

lemma escape_ascii_printable: "list_all printable_ascii (escape_ascii n)"
  by (simp add: escape_ascii_def hex4_def hex_digit_printable)
     (simp add: printable_ascii_def)

lemma encode_basestring_ascii_printable:
  "list_all printable_ascii (encode_basestring_ascii s)"
  by (simp add: encode_basestring_ascii_def list_all_iff)
     (use escape_ascii_printable in \<open>auto simp add: list_all_iff printable_ascii_def\<close>)

lemma py_join_printable:
  "list_all P sep \<Longrightarrow> \<forall>x \<in> set xs. list_all P x \<Longrightarrow> list_all P (py_join sep xs)"
  by (induction sep xs rule: py_join.induct) simp_all

lemma json_dumps_printable: "list_all printable_ascii (json_dumps j)"
proof (induction j)
  case JNull
  show ?case by (simp add: printable_ascii_def)
next
  case (JBool b)
  show ?case by (simp add: printable_ascii_def)
next
  case (JInt i)
  show ?case by (simp add: str_int_printable)
next
  case (JFloat f)
  show ?case by (simp add: float_str_printable)
next
  case (JStr s)
  show ?case by (simp add: encode_basestring_ascii_printable)
next
  case (JArr vs)
  then have "list_all printable_ascii (py_join '', '' (map json_dumps vs))"
    by (intro py_join_printable separators_printable) simp
  then show ?case using separators_printable by simp
next
  case (JObj kvs)
  have "list_all printable_ascii (py_join '', ''
          (map (\<lambda>kv. encode_basestring_ascii (fst kv) @ '': '' @ json_dumps (snd kv)) kvs))"
  proof (intro py_join_printable separators_printable ballI)
    fix x
    assume "x \<in> set (map (\<lambda>kv. encode_basestring_ascii (fst kv) @ '': '' @ json_dumps (snd kv)) kvs)"
    then obtain kv where kv: "kv \<in> set kvs"
      and x: "x = encode_basestring_ascii (fst kv) @ '': '' @ json_dumps (snd kv)"
      by auto
    have "snd kv \<in> Basic_BNFs.snds kv" by (cases kv) simp
    with JObj kv have "list_all printable_ascii (json_dumps (snd kv))" by blast
    then show "list_all printable_ascii x"
      using separators_printable by (simp add: x encode_basestring_ascii_printable)
  qed
  then show ?case using separators_printable by simp
qed

lemma json_dumps_single_line: "CHR 0x0A \<notin> set (json_dumps j) \<and> CHR 0x0D \<notin> set (json_dumps j)"
  using json_dumps_printable [of j] by (auto simp add: list_all_iff printable_ascii_def)

lemma digit_char_digit: "digit_char d \<in> set ''0123456789''"
  unfolding digit_char_def by (rule nth_mem) simp

lemma str_nat_first: "\<exists>c cs. str_nat n = c # cs \<and> c \<in> set ''0123456789''"
proof (induction n rule: str_nat.induct)
  case (1 n)
  show ?case
  proof (cases "n < 10")
    case True
    then show ?thesis using digit_char_digit [of n] by (simp add: str_nat.simps [of n])
  next
    case False
    with 1 obtain c cs where "str_nat (n div 10) = c # cs" and "c \<in> set ''0123456789''"
      by blast
    with False show ?thesis by (simp add: str_nat.simps [of n])
  qed
qed

lemma float_digits_first:
  "\<exists>c cs. float_digits ds decpt = c # cs \<and> c \<in> set ''0123456789.e''"
proof (cases ds)
  case Nil
  then show ?thesis
    by (cases "nat decpt") (auto simp add: float_digits_def)
next
  case (Cons d ds')
  then show ?thesis
    using digit_char_digit [of d]
    by (cases "nat decpt") (auto simp add: float_digits_def Let_def)
qed

lemma json_dumps_first: "\<exists>c cs. json_dumps j = c # cs \<and> c \<noteq> CHR ''S''"
proof (cases j)
  case (JInt i)
  then show ?thesis using str_nat_first [of "nat i"] by (auto simp add: str_int_def)
next
  case (JFloat f)
  then show ?thesis
  proof (cases f)
    case (Finite neg ds decpt)
    with JFloat show ?thesis using float_digits_first [of ds decpt] by auto
  qed simp_all
qed (simp_all add: encode_basestring_ascii_def)

lemma json_dumps_not_confirmation:
  "json_dumps j \<noteq> ''Successfuly requested restart on '' @ s @ '' service''"
  using json_dumps_first [of j] by auto

section \<open>The paths of a run\<close>

text \<open>What \<open>check_uri\<close> can raise: nothing that carries an exit status of its own.\<close>

lemma check_uri_raises:
  "check_uri cfg s = Inl e \<Longrightarrow>
   e = NoSectionError s \<or> (\<exists>opt. e = NoOptionError opt s) \<or> (\<exists>v. e = ValueError v)"
  unfolding check_uri_def cfg_getboolean_fallback_def cfg_get_def cfg_getint_def
  by (auto simp add: Let_def split: sum.splits option.splits if_splits)

lemma check_uri_exit_status: "check_uri cfg s = Inl e \<Longrightarrow> exit_status e = 1"
  by (drule check_uri_raises) auto

text \<open>
  Every run takes exactly one of twelve paths; each is given with what decides it and
  with the calls and the ending of the run.
\<close>

lemma main_cases [case_names absent unparsable no_section no_uri refused other garbled healthy unhealthy no_bus restart_failed restarted]:
  obtains
    "conf_file w = Absent"
    "main w a = ([Log (logger_name a) DEBUG (''Loading healthcheck for '' @ service a),
                  Log (logger_name a) CRITICAL (''Configuration file not found at '' @ cfile)],
                 SystemExit 2)"
  | m where "conf_file w = Unparsable m"
    "main w a = ([Log (logger_name a) DEBUG (''Loading healthcheck for '' @ service a)],
                 ConfigParserError m)"
  | cfg where "conf_file w = Parsed cfg" "\<not> has_section cfg (srv a)"
    "main w a = ([Log (logger_name a) DEBUG (''Loading healthcheck for '' @ service a),
                  Log (logger_name a) CRITICAL (''No configuration found for '' @ srv a)],
                 SystemExit 2)"
  | cfg e where "conf_file w = Parsed cfg" "has_section cfg (srv a)"
    "check_uri cfg (srv a) = Inl e"
    "main w a = ([Log (logger_name a) DEBUG (''Loading healthcheck for '' @ service a)], e)"
  | cfg u m where "conf_file w = Parsed cfg" "has_section cfg (srv a)"
    "check_uri cfg (srv a) = Inr u" "requests_get w u = ConnectionError m"
    "main w a = ([Log (logger_name a) DEBUG (''Loading healthcheck for '' @ service a),
                  Log (logger_name a) DEBUG (''Running check against '' @ u), HttpGet u,
                  Log (logger_name a) CRITICAL m], SystemExit 1)"
  | cfg u m where "conf_file w = Parsed cfg" "has_section cfg (srv a)"
    "check_uri cfg (srv a) = Inr u" "requests_get w u = OtherRequestError m"
    "main w a = ([Log (logger_name a) DEBUG (''Loading healthcheck for '' @ service a),
                  Log (logger_name a) DEBUG (''Running check against '' @ u), HttpGet u],
                 RequestException m)"
  | cfg u c t where "conf_file w = Parsed cfg" "has_section cfg (srv a)"
    "check_uri cfg (srv a) = Inr u" "requests_get w u = Response c t" "json_loads w t = None"
    "main w a = ([Log (logger_name a) DEBUG (''Loading healthcheck for '' @ service a),
                  Log (logger_name a) DEBUG (''Running check against '' @ u), HttpGet u],
                 JSONDecodeError t)"
  | cfg u c t j where "conf_file w = Parsed cfg" "has_section cfg (srv a)"
    "check_uri cfg (srv a) = Inr u" "requests_get w u = Response c t"
    "json_loads w t = Some j" "c = 200 \<or> c = 204"
    "main w a = ([Log (logger_name a) DEBUG (''Loading healthcheck for '' @ service a),
                  Log (logger_name a) DEBUG (''Running check against '' @ u), HttpGet u,
                  Log (logger_name a) INFO (json_dumps j)], SystemExit 0)"
  | cfg u c t j where "conf_file w = Parsed cfg" "has_section cfg (srv a)"
    "check_uri cfg (srv a) = Inr u" "requests_get w u = Response c t"
    "json_loads w t = Some j" "c \<noteq> 200" "c \<noteq> 204"
    "cfg_get_fallback cfg (srv a) ''failure_action'' '''' \<noteq> ''restart''"
    "main w a = ([Log (logger_name a) DEBUG (''Loading healthcheck for '' @ service a),
                  Log (logger_name a) DEBUG (''Running check against '' @ u), HttpGet u,
                  Log (logger_name a) INFO (json_dumps j)], SystemExit 1)"
  | cfg u c t j m where "conf_file w = Parsed cfg" "has_section cfg (srv a)"
    "check_uri cfg (srv a) = Inr u" "requests_get w u = Response c t"
    "json_loads w t = Some j" "c \<noteq> 200" "c \<noteq> 204"
    "cfg_get_fallback cfg (srv a) ''failure_action'' '''' = ''restart''"
    "system_bus w = Some m"
    "main w a = ([Log (logger_name a) DEBUG (''Loading healthcheck for '' @ service a),
                  Log (logger_name a) DEBUG (''Running check against '' @ u), HttpGet u,
                  Log (logger_name a) INFO (json_dumps j), SystemBus], DBusException m)"
  | cfg u c t j m where "conf_file w = Parsed cfg" "has_section cfg (srv a)"
    "check_uri cfg (srv a) = Inr u" "requests_get w u = Response c t"
    "json_loads w t = Some j" "c \<noteq> 200" "c \<noteq> 204"
    "cfg_get_fallback cfg (srv a) ''failure_action'' '''' = ''restart''"
    "system_bus w = None" "restart_unit w (srv a @ ''.service'') ''fail'' = Some m"
    "main w a = ([Log (logger_name a) DEBUG (''Loading healthcheck for '' @ service a),
                  Log (logger_name a) DEBUG (''Running check against '' @ u), HttpGet u,
                  Log (logger_name a) INFO (json_dumps j), SystemBus,
                  Log (logger_name a) DEBUG
                    (''Trying to request restart on '' @ srv a @ '' service''),
                  RestartUnit (srv a @ ''.service'') ''fail'',
                  Log (logger_name a) CRITICAL m], SystemExit 1)"
  | cfg u c t j where "conf_file w = Parsed cfg" "has_section cfg (srv a)"
    "check_uri cfg (srv a) = Inr u" "requests_get w u = Response c t"
    "json_loads w t = Some j" "c \<noteq> 200" "c \<noteq> 204"
    "cfg_get_fallback cfg (srv a) ''failure_action'' '''' = ''restart''"
    "system_bus w = None" "restart_unit w (srv a @ ''.service'') ''fail'' = None"
    "main w a = ([Log (logger_name a) DEBUG (''Loading healthcheck for '' @ service a),
                  Log (logger_name a) DEBUG (''Running check against '' @ u), HttpGet u,
                  Log (logger_name a) INFO (json_dumps j), SystemBus,
                  Log (logger_name a) DEBUG
                    (''Trying to request restart on '' @ srv a @ '' service''),
                  RestartUnit (srv a @ ''.service'') ''fail'',
                  Log (logger_name a) INFO
                    (''Successfuly requested restart on '' @ srv a @ '' service'')],
                 SystemExit 1)"
proof (cases "conf_file w")
  case Absent
  then show ?thesis using that(1) by (simp add: main_def load_config_def)
next
  case (Unparsable m)
  then show ?thesis using that(2) by (simp add: main_def load_config_def)
next
  case (Parsed cfg)
  show ?thesis
  proof (cases "has_section cfg (srv a)")
    case False
    with Parsed show ?thesis using that(3) by (simp add: main_def load_config_def)
  next
    case True
    have m: "main w a = (Log (logger_name a) DEBUG (''Loading healthcheck for '' @ service a)
                 # fst (run_check w a cfg),
               case snd (run_check w a cfg) of Inl e \<Rightarrow> e | Inr v \<Rightarrow> sys_exit v)"
      using Parsed True by (simp add: main_def load_config_def split: prod.splits sum.splits)
    show ?thesis
    proof (cases "check_uri cfg (srv a)")
      case (Inl e)
      then show ?thesis using that(4) [OF Parsed True] m by (simp add: run_check_def)
    next
      case (Inr u)
      show ?thesis
      proof (cases "requests_get w u")
        case (ConnectionError x)
        then show ?thesis using that(5) [OF Parsed True Inr] m Inr by (simp add: run_check_def)
      next
        case (OtherRequestError x)
        then show ?thesis using that(6) [OF Parsed True Inr] m Inr by (simp add: run_check_def)
      next
        case (Response c t)
        show ?thesis
        proof (cases "json_loads w t")
          case None
          then show ?thesis
            using that(7) [OF Parsed True Inr Response] m Inr Response by (simp add: run_check_def)
        next
          case (Some j)
          note reached = Parsed True Inr Response Some
          show ?thesis
          proof (cases "c = 200 \<or> c = 204")
            case True
            then show ?thesis
              using that(8) [OF reached] m Inr Response Some
              by (auto simp add: run_check_def Let_def)
          next
            case False
            then have c: "c \<noteq> 200" "c \<noteq> 204" by simp_all
            show ?thesis
            proof (cases "cfg_get_fallback cfg (srv a) ''failure_action'' '''' = ''restart''")
              case False
              then show ?thesis
                using that(9) [OF reached c] m Inr Response Some c
                by (simp add: run_check_def Let_def)
            next
              case fa: True
              have r: "run_check w a cfg =
                  ([Log (logger_name a) DEBUG (''Running check against '' @ u), HttpGet u,
                    Log (logger_name a) INFO (json_dumps j)] @ fst (restart_service w a),
                   case snd (restart_service w a) of
                     Inl e \<Rightarrow> Inl e | Inr x \<Rightarrow> Inr (PyBool True))"
                using Inr Response Some c fa
                by (simp add: run_check_def Let_def split: prod.splits sum.splits)
              show ?thesis
              proof (cases "system_bus w")
                case (Some x)
                then show ?thesis
                  using that(10) [OF reached c fa] m r by (simp add: restart_service_def)
              next
                case None
                show ?thesis
                proof (cases "restart_unit w (srv a @ ''.service'') ''fail''")
                  case (Some x)
                  then show ?thesis
                    using that(11) [OF reached c fa None] m r None
                    by (simp add: restart_service_def)
                next
                  case n2: None
                  then show ?thesis
                    using that(12) [OF reached c fa None] m r None
                    by (simp add: restart_service_def)
                qed
              qed
            qed
          qed
        qed
      qed
    qed
  qed
qed


lemma exit_code_2_iff:
  "exit_code w a = 2 \<longleftrightarrow>
     conf_file w = Absent \<or> (\<exists>cfg. conf_file w = Parsed cfg \<and> \<not> has_section cfg (srv a))"
  by (cases rule: main_cases [of w a]) (simp_all add: exit_code_def check_uri_exit_status)

lemma log_names: "Log n l m \<in> set (calls w a) \<Longrightarrow> n = logger_name a"
  by (cases rule: main_cases [of w a]) (auto simp add: calls_def)

lemma restart_unit_names:
  "RestartUnit n m \<in> set (calls w a) \<Longrightarrow> n = srv a @ ''.service'' \<and> m = ''fail''"
  by (cases rule: main_cases [of w a]) (auto simp add: calls_def)

lemma http_get_sent:
  "HttpGet u \<in> set (calls w a) \<Longrightarrow>
   \<exists>cfg. conf_file w = Parsed cfg \<and> has_section cfg (srv a) \<and> check_uri cfg (srv a) = Inr u"
  by (cases rule: main_cases [of w a]) (auto simp add: calls_def)

text \<open>The main block, path by path, as equations.\<close>

lemma main_absent:
  "conf_file w = Absent \<Longrightarrow>
   main w a = ([Log (logger_name a) DEBUG (''Loading healthcheck for '' @ service a),
                Log (logger_name a) CRITICAL (''Configuration file not found at '' @ cfile)],
               SystemExit 2)"
  by (simp add: main_def load_config_def)

lemma main_unparsable:
  "conf_file w = Unparsable m \<Longrightarrow>
   main w a = ([Log (logger_name a) DEBUG (''Loading healthcheck for '' @ service a)],
               ConfigParserError m)"
  by (simp add: main_def load_config_def)

lemma main_no_section:
  "conf_file w = Parsed cfg \<Longrightarrow> \<not> has_section cfg (srv a) \<Longrightarrow>
   main w a = ([Log (logger_name a) DEBUG (''Loading healthcheck for '' @ service a),
                Log (logger_name a) CRITICAL (''No configuration found for '' @ srv a)],
               SystemExit 2)"
  by (simp add: main_def load_config_def)

lemma main_loaded:
  "conf_file w = Parsed cfg \<Longrightarrow> has_section cfg (srv a) \<Longrightarrow>
   main w a = (Log (logger_name a) DEBUG (''Loading healthcheck for '' @ service a)
                 # fst (run_check w a cfg),
               case snd (run_check w a cfg) of Inl e \<Rightarrow> e | Inr v \<Rightarrow> sys_exit v)"
  by (simp add: main_def load_config_def split: prod.splits sum.splits)

text \<open>One equation for each way through \<open>run_check\<close>.\<close>

lemma run_check_no_uri:
  "check_uri cfg (srv a) = Inl e \<Longrightarrow> run_check w a cfg = ([], Inl e)"
  by (simp add: run_check_def)

lemma run_check_connection_error:
  "check_uri cfg (srv a) = Inr u \<Longrightarrow> requests_get w u = ConnectionError m \<Longrightarrow>
   run_check w a cfg =
     ([Log (logger_name a) DEBUG (''Running check against '' @ u), HttpGet u,
       Log (logger_name a) CRITICAL m], Inr (PyInt 1))"
  by (simp add: run_check_def)

lemma run_check_other_error:
  "check_uri cfg (srv a) = Inr u \<Longrightarrow> requests_get w u = OtherRequestError m \<Longrightarrow>
   run_check w a cfg =
     ([Log (logger_name a) DEBUG (''Running check against '' @ u), HttpGet u],
      Inl (RequestException m))"
  by (simp add: run_check_def)

lemma run_check_bad_json:
  "check_uri cfg (srv a) = Inr u \<Longrightarrow> requests_get w u = Response c t \<Longrightarrow>
   json_loads w t = None \<Longrightarrow>
   run_check w a cfg =
     ([Log (logger_name a) DEBUG (''Running check against '' @ u), HttpGet u],
      Inl (JSONDecodeError t))"
  by (simp add: run_check_def)






section \<open>The example runs, evaluated\<close>

lemma nova_srv: "srv nova_args = ''nova-api''"
  by (simp add: nova_args_def srv_def splitext_def splitext_scan.simps)

lemma nova_logger: "logger_name nova_args = ''healthcheck.nova-api''"
  by (simp add: logger_name_def nova_srv)

lemma nova_service: "service nova_args = ''nova-api.service''"
  by (simp add: nova_args_def)

lemma py_int_8989: "py_int ''8989'' = Some 8989"
  by (simp add: py_int_def py_strip_def is_space_def is_digit_def digit_val_def)

lemma str_int_8989: "str_int 8989 = ''8989''"
  by (simp add: str_int_def str_nat.simps digit_char_def)

lemma nova_check_uri: "check_uri [''nova-api'' \<mapsto> nova_section] ''nova-api'' = Inr nova_uri"
  by (simp add: check_uri_def nova_uri_def nova_section_def cfg_getboolean_fallback_def
        cfg_get_def cfg_getint_def py_int_8989 str_int_8989 py_lower_def lower_char_def)

lemma restart_check_uri:
  "check_uri [''nova-api'' \<mapsto> restart_section] ''nova-api'' = Inr nova_uri"
  by (simp add: check_uri_def nova_uri_def nova_section_def restart_section_def
        cfg_getboolean_fallback_def cfg_get_def cfg_getint_def py_int_8989 str_int_8989
        py_lower_def lower_char_def)

lemma nova_dumps: "json_dumps nova_payload = nova_line"
  by code_simp

lemma sick_dumps: "json_dumps sick_payload = sick_line"
  by code_simp

lemma nova_failure_action:
  "cfg_get_fallback [''nova-api'' \<mapsto> nova_section] ''nova-api'' ''failure_action'' [] = []"
  by (simp add: cfg_get_fallback_def nova_section_def)

lemma restart_failure_action:
  "cfg_get_fallback [''nova-api'' \<mapsto> restart_section] ''nova-api'' ''failure_action'' []
   = ''restart''"
  by (simp add: cfg_get_fallback_def restart_section_def)

lemmas nova_eval =
  main_def load_config_def run_check_def restart_service_def has_section_def
  nova_srv nova_logger nova_service nova_check_uri restart_check_uri nova_dumps sick_dumps
  nova_failure_action restart_failure_action

lemma nova_run:
  "main nova_world nova_args =
     ([Log ''healthcheck.nova-api'' DEBUG ''Loading healthcheck for nova-api.service'',
       Log ''healthcheck.nova-api'' DEBUG
         ''Running check against http://127.0.0.1:8989/healthcheck'',
       HttpGet nova_uri,
       Log ''healthcheck.nova-api'' INFO nova_line], SystemExit 0)"
  by (simp add: nova_world_def nova_eval) (simp add: nova_uri_def)



lemma restart_run:
  "main restart_world nova_args =
     ([Log ''healthcheck.nova-api'' DEBUG ''Loading healthcheck for nova-api.service'',
       Log ''healthcheck.nova-api'' DEBUG
         ''Running check against http://127.0.0.1:8989/healthcheck'',
       HttpGet nova_uri,
       Log ''healthcheck.nova-api'' INFO sick_line,
       SystemBus,
       Log ''healthcheck.nova-api'' DEBUG ''Trying to request restart on nova-api service'',
       RestartUnit ''nova-api.service'' ''fail'',
       Log ''healthcheck.nova-api'' INFO ''Successfuly requested restart on nova-api service''],
      SystemExit 1)"
  by (simp add: restart_world_def down_world_def nova_world_def nova_eval)
     (simp add: nova_uri_def)


lemma no_bus_run:
  "main no_bus_world nova_args =
     ([Log ''healthcheck.nova-api'' DEBUG ''Loading healthcheck for nova-api.service'',
       Log ''healthcheck.nova-api'' DEBUG
         ''Running check against http://127.0.0.1:8989/healthcheck'',
       HttpGet nova_uri,
       Log ''healthcheck.nova-api'' INFO sick_line,
       SystemBus],
      DBusException ''Failed to connect to socket'')"
  by (simp add: no_bus_world_def restart_world_def down_world_def nova_world_def nova_eval)
     (simp add: nova_uri_def)

lemma unreachable_run:
  "main unreachable_world nova_args =
     ([Log ''healthcheck.nova-api'' DEBUG ''Loading healthcheck for nova-api.service'',
       Log ''healthcheck.nova-api'' DEBUG
         ''Running check against http://127.0.0.1:8989/healthcheck'',
       HttpGet nova_uri,
       Log ''healthcheck.nova-api'' CRITICAL ''Connection refused''], SystemExit 1)"
  by (simp add: unreachable_world_def nova_world_def nova_eval) (simp add: nova_uri_def)

lemma garbled_run:
  "main garbled_world nova_args =
     ([Log ''healthcheck.nova-api'' DEBUG ''Loading healthcheck for nova-api.service'',
       Log ''healthcheck.nova-api'' DEBUG
         ''Running check against http://127.0.0.1:8989/healthcheck'',
       HttpGet nova_uri], JSONDecodeError ''<html>busy</html>'')"
  by (simp add: garbled_world_def nova_world_def nova_eval) (simp add: nova_uri_def)

section \<open>The health decision\<close>



section \<open>The exit code\<close>



section \<open>The restart\<close>

text \<open>
  C3. \<open>__restart_service\<close> is entered (its first call opens the system bus) if and
  only if the probe result is unhealthy (the GET completed, the body parsed, the status
  is neither 200 nor 204) and \<open>failure_action\<close> of the section is \<open>restart\<close>; it is
  entered at most once in a run. The only restart request a run ever makes is
  \<open>RestartUnit\<close> for \<open><srv>.service\<close> with mode \<open>fail\<close>, and it is made exactly
  once when \<open>__restart_service\<close> was entered and the manager interface was obtained,
  and not at all otherwise. So with \<open>failure_action\<close> unset or different, an unhealthy
  result makes no restart request.
\<close>

theorem restart_iff_unhealthy_and_configured:
  "(SystemBus \<in> set (calls w a) \<longleftrightarrow>
      (\<exists>cfg u c t j. conf_file w = Parsed cfg \<and> HttpGet u \<in> set (calls w a)
         \<and> requests_get w u = Response c t \<and> json_loads w t = Some j
         \<and> c \<noteq> 200 \<and> c \<noteq> 204
         \<and> cfg_get_fallback cfg (srv a) ''failure_action'' [] = ''restart''))
   \<and> count_list (calls w a) SystemBus \<le> 1
   \<and> (\<forall>n m. count_list (calls w a) (RestartUnit n m) =
         (if SystemBus \<in> set (calls w a) \<and> system_bus w = None
             \<and> n = srv a @ ''.service'' \<and> m = ''fail''
          then 1 else 0))"
proof (intro conjI)
  show "SystemBus \<in> set (calls w a) \<longleftrightarrow>
      (\<exists>cfg u c t j. conf_file w = Parsed cfg \<and> HttpGet u \<in> set (calls w a)
         \<and> requests_get w u = Response c t \<and> json_loads w t = Some j
         \<and> c \<noteq> 200 \<and> c \<noteq> 204
         \<and> cfg_get_fallback cfg (srv a) ''failure_action'' [] = ''restart'')"
    by (cases rule: main_cases [of w a]) (auto simp add: calls_def)
  show "count_list (calls w a) SystemBus \<le> 1"
    by (cases rule: main_cases [of w a]) (simp_all add: calls_def)
  show "\<forall>n m. count_list (calls w a) (RestartUnit n m) =
         (if SystemBus \<in> set (calls w a) \<and> system_bus w = None
             \<and> n = srv a @ ''.service'' \<and> m = ''fail''
          then 1 else 0)"
    by (cases rule: main_cases [of w a]) (simp_all add: calls_def)
qed

theorem restart_iff_unhealthy_and_configured_witness:
  "SystemBus \<in> set (calls restart_world nova_args)
   \<and> count_list (calls restart_world nova_args) (RestartUnit ''nova-api.service'' ''fail'') = 1
   \<and> count_list (calls restart_world nova_args) (RestartUnit ''nova-api'' ''fail'') = 0
   \<and> conf_file down_world = Parsed [''nova-api'' \<mapsto> nova_section]
   \<and> cfg_get_fallback [''nova-api'' \<mapsto> nova_section] (srv nova_args) ''failure_action'' []
       \<noteq> ''restart''
   \<and> SystemBus \<notin> set (calls down_world nova_args)
   \<and> count_list (calls down_world nova_args) (RestartUnit ''nova-api.service'' ''fail'') = 0
   \<and> system_bus no_bus_world \<noteq> None
   \<and> count_list (calls no_bus_world nova_args) SystemBus = 1
   \<and> count_list (calls no_bus_world nova_args) (RestartUnit ''nova-api.service'' ''fail'') = 0"
proof -
  have nb: "system_bus no_bus_world \<noteq> None"
    by (simp add: no_bus_world_def)
  have nb1: "count_list (calls no_bus_world nova_args) SystemBus = 1"
    by (simp add: calls_def no_bus_run)
  from restart_iff_unhealthy_and_configured [of no_bus_world nova_args] have
    "count_list (calls no_bus_world nova_args) (RestartUnit ''nova-api.service'' ''fail'') =
       (if SystemBus \<in> set (calls no_bus_world nova_args) \<and> system_bus no_bus_world = None
           \<and> ''nova-api.service'' = srv nova_args @ ''.service'' \<and> ''fail'' = ''fail''
        then 1 else 0)"
    by blast
  with nb have nb0:
    "count_list (calls no_bus_world nova_args) (RestartUnit ''nova-api.service'' ''fail'') = 0"
    by simp
  have r: "conf_file restart_world = Parsed [''nova-api'' \<mapsto> restart_section]
      \<and> HttpGet nova_uri \<in> set (calls restart_world nova_args)
      \<and> requests_get restart_world nova_uri = Response 503 nova_body
      \<and> json_loads restart_world nova_body = Some sick_payload
      \<and> (503::int) \<noteq> 200 \<and> (503::int) \<noteq> 204
      \<and> cfg_get_fallback [''nova-api'' \<mapsto> restart_section] (srv nova_args)
           ''failure_action'' [] = ''restart''"
    by (simp add: calls_def restart_run nova_srv restart_failure_action)
       (simp add: restart_world_def down_world_def nova_world_def)
  have bus: "system_bus restart_world = None"
    by (simp add: restart_world_def down_world_def nova_world_def)
  have d: "conf_file down_world = Parsed [''nova-api'' \<mapsto> nova_section]"
    by (simp add: down_world_def nova_world_def)
  have fa: "cfg_get_fallback [''nova-api'' \<mapsto> nova_section] (srv nova_args)
              ''failure_action'' [] \<noteq> ''restart''"
    by (simp add: nova_srv nova_failure_action)
  note at_restart = restart_iff_unhealthy_and_configured [of restart_world nova_args]
  note at_down = restart_iff_unhealthy_and_configured [of down_world nova_args]
  have entered: "SystemBus \<in> set (calls restart_world nova_args)"
    using at_restart r by blast
  have not_entered: "SystemBus \<notin> set (calls down_world nova_args)"
    using at_down d fa by auto
  from at_restart have
    "count_list (calls restart_world nova_args) (RestartUnit ''nova-api.service'' ''fail'') =
       (if SystemBus \<in> set (calls restart_world nova_args) \<and> system_bus restart_world = None
           \<and> ''nova-api.service'' = srv nova_args @ ''.service'' \<and> ''fail'' = ''fail''
        then 1 else 0)"
    and "count_list (calls restart_world nova_args) (RestartUnit ''nova-api'' ''fail'') =
       (if SystemBus \<in> set (calls restart_world nova_args) \<and> system_bus restart_world = None
           \<and> ''nova-api'' = srv nova_args @ ''.service'' \<and> ''fail'' = ''fail''
        then 1 else 0)"
    by blast+
  moreover from at_down have
    "count_list (calls down_world nova_args) (RestartUnit ''nova-api.service'' ''fail'') =
       (if SystemBus \<in> set (calls down_world nova_args) \<and> system_bus down_world = None
           \<and> ''nova-api.service'' = srv nova_args @ ''.service'' \<and> ''fail'' = ''fail''
        then 1 else 0)"
    by blast
  ultimately show ?thesis
    using entered not_entered bus d fa nb nb1 nb0 by (simp add: nova_srv)
qed



section \<open>Configuration errors\<close>

text \<open>
  C5. When the file \<open>./tripleo-healthchecks.conf\<close> does not exist, or was loaded and
  has no section named after the service, the run logs one message at critical level
  (it reaches the log whatever \<open>--debug\<close> says), ends with exit code 2, and sends no GET.
\<close>

theorem config_error_exits_2_without_get:
  assumes "conf_file w = Absent \<or> (\<exists>cfg. conf_file w = Parsed cfg \<and> \<not> has_section cfg (srv a))"
  shows "calls w a =
           [Log (logger_name a) DEBUG (''Loading healthcheck for '' @ service a),
            Log (logger_name a) CRITICAL
              (if conf_file w = Absent
               then ''Configuration file not found at ./tripleo-healthchecks.conf''
               else ''No configuration found for '' @ srv a)]
         \<and> (\<exists>m. (logger_name a, CRITICAL, m) \<in> set (logged a (calls w a)))
         \<and> exit_code w a = 2
         \<and> (\<forall>u. HttpGet u \<notin> set (calls w a))"
  using assms
proof
  assume "conf_file w = Absent"
  then show ?thesis
    by (simp add: calls_def exit_code_def main_absent cfile_def enabled_def)
next
  assume "\<exists>cfg. conf_file w = Parsed cfg \<and> \<not> has_section cfg (srv a)"
  then obtain cfg where "conf_file w = Parsed cfg" and "\<not> has_section cfg (srv a)"
    by blast
  then show ?thesis
    by (simp add: calls_def exit_code_def main_no_section enabled_def)
qed

theorem config_error_exits_2_without_get_witness:
  "conf_file no_file_world = Absent
   \<and> exit_code no_file_world nova_args = 2
   \<and> calls no_file_world nova_args =
       [Log ''healthcheck.nova-api'' DEBUG ''Loading healthcheck for nova-api.service'',
        Log ''healthcheck.nova-api'' CRITICAL
          ''Configuration file not found at ./tripleo-healthchecks.conf'']
   \<and> conf_file no_section_world = Parsed [''glance-api'' \<mapsto> nova_section]
   \<and> \<not> has_section [''glance-api'' \<mapsto> nova_section] (srv nova_args)
   \<and> exit_code no_section_world nova_args = 2
   \<and> calls no_section_world nova_args =
       [Log ''healthcheck.nova-api'' DEBUG ''Loading healthcheck for nova-api.service'',
        Log ''healthcheck.nova-api'' CRITICAL ''No configuration found for nova-api'']"
proof -
  have f: "conf_file no_file_world = Absent"
    by (simp add: no_file_world_def nova_world_def)
  have s: "conf_file no_section_world = Parsed [''glance-api'' \<mapsto> nova_section]"
    by (simp add: no_section_world_def nova_world_def)
  have n: "\<not> has_section [''glance-api'' \<mapsto> nova_section] (srv nova_args)"
    by (simp add: has_section_def nova_srv)
  from f have h1: "conf_file no_file_world = Absent
      \<or> (\<exists>cfg. conf_file no_file_world = Parsed cfg \<and> \<not> has_section cfg (srv nova_args))"
    by simp
  from s n have h2: "conf_file no_section_world = Absent
      \<or> (\<exists>cfg. conf_file no_section_world = Parsed cfg \<and> \<not> has_section cfg (srv nova_args))"
    by simp
  show ?thesis
    using f s n config_error_exits_2_without_get [OF h1] config_error_exits_2_without_get [OF h2]
    by (simp add: nova_srv nova_logger nova_service)
qed

section \<open>Failures of the probe\<close>

text \<open>
  C6, as stated, says that a connection failure is the only failure that ends a run
  before the payload is logged. It is not. Here the GET completes with status 200, the
  body is not JSON, \<open>json.loads\<close> raises, and the run ends with that exception (exit
  status 1) after the GET and before any payload line. And a run without its
  configuration file ends with exit code 2 before any GET, let alone a payload line.
\<close>

theorem garbled_body_ends_run_before_payload_log:
  "requests_get garbled_world nova_uri = Response 200 ''<html>busy</html>''
   \<and> calls garbled_world nova_args =
       [Log ''healthcheck.nova-api'' DEBUG ''Loading healthcheck for nova-api.service'',
        Log ''healthcheck.nova-api'' DEBUG
          ''Running check against http://127.0.0.1:8989/healthcheck'',
        HttpGet nova_uri]
   \<and> snd (main garbled_world nova_args) = JSONDecodeError ''<html>busy</html>''
   \<and> exit_code garbled_world nova_args = 1
   \<and> calls no_file_world nova_args =
       [Log ''healthcheck.nova-api'' DEBUG ''Loading healthcheck for nova-api.service'',
        Log ''healthcheck.nova-api'' CRITICAL
          ''Configuration file not found at ./tripleo-healthchecks.conf'']
   \<and> exit_code no_file_world nova_args = 2"
proof -
  have "conf_file no_file_world = Absent"
    by (simp add: no_file_world_def nova_world_def)
  then have "main no_file_world nova_args =
       ([Log ''healthcheck.nova-api'' DEBUG ''Loading healthcheck for nova-api.service'',
         Log ''healthcheck.nova-api'' CRITICAL
           ''Configuration file not found at ./tripleo-healthchecks.conf''], SystemExit 2)"
    by (simp add: main_absent nova_logger nova_service cfile_def)
  then show ?thesis
    by (simp add: calls_def exit_code_def garbled_run) (simp add: garbled_world_def)
qed

text \<open>
  C6, amended. A connection failure of the GET is caught in \<open>run_check\<close>: it is logged
  at critical level, \<open>run_check\<close> returns 1, the exit code is 1 and no payload line is
  logged. It is the only failure \<open>run_check\<close> handles itself: whenever \<open>run_check\<close>
  returns a value without having logged anything at informational level, the GET had
  raised a connection error. (A configuration error ends the run before \<open>run_check\<close>
  is entered.)
\<close>

theorem connection_failure_is_the_handled_failure:
  assumes "conf_file w = Parsed cfg" and "has_section cfg (srv a)"
  shows "(\<forall>u m. HttpGet u \<in> set (calls w a) \<and> requests_get w u = ConnectionError m \<longrightarrow>
            run_check w a cfg =
              ([Log (logger_name a) DEBUG (''Running check against '' @ u), HttpGet u,
                Log (logger_name a) CRITICAL m], Inr (PyInt 1))
            \<and> (logger_name a, CRITICAL, m) \<in> set (logged a (calls w a))
            \<and> (\<forall>n x. Log n INFO x \<notin> set (calls w a))
            \<and> snd (main w a) = SystemExit 1 \<and> exit_code w a = 1)
         \<and> (\<forall>v. snd (run_check w a cfg) = Inr v
                \<and> (\<forall>n x. Log n INFO x \<notin> set (fst (run_check w a cfg))) \<longrightarrow>
              (\<exists>u m. HttpGet u \<in> set (calls w a) \<and> requests_get w u = ConnectionError m))"
proof (rule conjI; intro allI impI)
  fix u m
  assume h: "HttpGet u \<in> set (calls w a) \<and> requests_get w u = ConnectionError m"
  with http_get_sent [of u w a] assms have uri: "check_uri cfg (srv a) = Inr u"
    by auto
  from h have r: "run_check w a cfg =
      ([Log (logger_name a) DEBUG (''Running check against '' @ u), HttpGet u,
        Log (logger_name a) CRITICAL m], Inr (PyInt 1))"
    by (simp add: run_check_connection_error [OF uri])
  then show "run_check w a cfg =
              ([Log (logger_name a) DEBUG (''Running check against '' @ u), HttpGet u,
                Log (logger_name a) CRITICAL m], Inr (PyInt 1))
            \<and> (logger_name a, CRITICAL, m) \<in> set (logged a (calls w a))
            \<and> (\<forall>n x. Log n INFO x \<notin> set (calls w a))
            \<and> snd (main w a) = SystemExit 1 \<and> exit_code w a = 1"
    by (simp add: calls_def exit_code_def main_loaded [OF assms] enabled_def)
next
  fix v
  assume h: "snd (run_check w a cfg) = Inr v
             \<and> (\<forall>n x. Log n INFO x \<notin> set (fst (run_check w a cfg)))"
  have m: "calls w a = Log (logger_name a) DEBUG (''Loading healthcheck for '' @ service a)
                        # fst (run_check w a cfg)"
    by (simp add: calls_def main_loaded [OF assms])
  show "\<exists>u m. HttpGet u \<in> set (calls w a) \<and> requests_get w u = ConnectionError m"
  proof (cases "check_uri cfg (srv a)")
    case (Inl e)
    with h show ?thesis by (simp add: run_check_no_uri)
  next
    case (Inr u)
    show ?thesis
    proof (cases "requests_get w u")
      case (ConnectionError x)
      with Inr m show ?thesis by (auto simp add: run_check_connection_error)
    next
      case (OtherRequestError x)
      with Inr h show ?thesis by (simp add: run_check_other_error)
    next
      case (Response c t)
      show ?thesis
      proof (cases "json_loads w t")
        case None
        with Inr Response h show ?thesis by (simp add: run_check_bad_json)
      next
        case (Some j)
        have "Log (logger_name a) INFO (json_dumps j) \<in> set (fst (run_check w a cfg))"
          using Inr Response Some
          by (simp add: run_check_def Let_def split: prod.splits sum.splits)
        with h show ?thesis by blast
      qed
    qed
  qed
qed

theorem connection_failure_is_the_handled_failure_witness:
  "conf_file unreachable_world = Parsed [''nova-api'' \<mapsto> nova_section]
   \<and> has_section [''nova-api'' \<mapsto> nova_section] (srv nova_args)
   \<and> HttpGet nova_uri \<in> set (calls unreachable_world nova_args)
   \<and> requests_get unreachable_world nova_uri = ConnectionError ''Connection refused''
   \<and> run_check unreachable_world nova_args [''nova-api'' \<mapsto> nova_section] =
       ([Log ''healthcheck.nova-api'' DEBUG
           ''Running check against http://127.0.0.1:8989/healthcheck'',
         HttpGet nova_uri,
         Log ''healthcheck.nova-api'' CRITICAL ''Connection refused''], Inr (PyInt 1))
   \<and> exit_code unreachable_world nova_args = 1"
proof -
  have c: "conf_file unreachable_world = Parsed [''nova-api'' \<mapsto> nova_section]"
    and g: "requests_get unreachable_world nova_uri = ConnectionError ''Connection refused''"
    by (simp_all add: unreachable_world_def nova_world_def)
  have s: "has_section [''nova-api'' \<mapsto> nova_section] (srv nova_args)"
    by (simp add: has_section_def nova_srv)
  have h: "HttpGet nova_uri \<in> set (calls unreachable_world nova_args)"
    by (simp add: calls_def unreachable_run)
  have v: "snd (run_check unreachable_world nova_args [''nova-api'' \<mapsto> nova_section])
             = Inr (PyInt 1)
           \<and> (\<forall>n x. Log n INFO x
                 \<notin> set (fst (run_check unreachable_world nova_args
                                [''nova-api'' \<mapsto> nova_section])))"
    using connection_failure_is_the_handled_failure [OF c s] h g by simp
  then have "\<exists>u m. HttpGet u \<in> set (calls unreachable_world nova_args)
               \<and> requests_get unreachable_world u = ConnectionError m"
    using connection_failure_is_the_handled_failure [OF c s] by blast
  then show ?thesis
    using c s h g connection_failure_is_the_handled_failure [OF c s]
    by (simp add: nova_logger nova_uri_def)
qed

section \<open>The payload line\<close>

text \<open>
  C7. In every run in which a response is received and its body parses, the calls of the
  run begin with the two debug messages, the GET and then the payload at informational
  level; whatever follows (the restart, if any) comes after it. The payload is logged
  exactly once, the record reaches the log whatever \<open>--debug\<close> says, and its text is
  made of printable ASCII characters only, so it has no line break.
\<close>

theorem payload_logged_once_before_restart:
  assumes "HttpGet u \<in> set (calls w a)"
    and "requests_get w u = Response c t"
    and "json_loads w t = Some j"
  shows "(\<exists>post. calls w a =
            [Log (logger_name a) DEBUG (''Loading healthcheck for '' @ service a),
             Log (logger_name a) DEBUG (''Running check against '' @ u),
             HttpGet u,
             Log (logger_name a) INFO (json_dumps j)] @ post)
         \<and> count_list (calls w a) (Log (logger_name a) INFO (json_dumps j)) = 1
         \<and> count_list (logged a (calls w a)) (logger_name a, INFO, json_dumps j) = 1
         \<and> list_all printable_ascii (json_dumps j)
         \<and> CHR 0x0A \<notin> set (json_dumps j) \<and> CHR 0x0D \<notin> set (json_dumps j)"
proof -
  have line: "list_all printable_ascii (json_dumps j)
         \<and> CHR 0x0A \<notin> set (json_dumps j) \<and> CHR 0x0D \<notin> set (json_dumps j)"
    using json_dumps_printable [of j] json_dumps_single_line [of j] by simp
  have "(\<exists>post. calls w a =
            [Log (logger_name a) DEBUG (''Loading healthcheck for '' @ service a),
             Log (logger_name a) DEBUG (''Running check against '' @ u),
             HttpGet u,
             Log (logger_name a) INFO (json_dumps j)] @ post)
         \<and> count_list (calls w a) (Log (logger_name a) INFO (json_dumps j)) = 1
         \<and> count_list (logged a (calls w a)) (logger_name a, INFO, json_dumps j) = 1"
    using assms json_dumps_not_confirmation [of j "srv a"]
    by (cases rule: main_cases [of w a]) (auto simp add: calls_def enabled_def)
  with line show ?thesis by simp
qed

theorem payload_logged_once_before_restart_witness:
  "HttpGet nova_uri \<in> set (calls restart_world nova_args)
   \<and> requests_get restart_world nova_uri = Response 503 nova_body
   \<and> json_loads restart_world nova_body = Some sick_payload
   \<and> count_list (calls restart_world nova_args) (Log ''healthcheck.nova-api'' INFO sick_line) = 1
   \<and> CHR 0x0A \<notin> set sick_line
   \<and> HttpGet nova_uri \<in> set (calls nova_world nova_args)
   \<and> requests_get nova_world nova_uri = Response 200 nova_body
   \<and> json_loads nova_world nova_body = Some nova_payload
   \<and> count_list (logged nova_args (calls nova_world nova_args))
       (''healthcheck.nova-api'', INFO, nova_line) = 1
   \<and> list_all printable_ascii nova_line"
proof -
  have r1: "HttpGet nova_uri \<in> set (calls restart_world nova_args)"
    by (simp add: calls_def restart_run)
  have r2: "requests_get restart_world nova_uri = Response 503 nova_body"
    and r3: "json_loads restart_world nova_body = Some sick_payload"
    by (simp_all add: restart_world_def down_world_def nova_world_def)
  have n1: "HttpGet nova_uri \<in> set (calls nova_world nova_args)"
    by (simp add: calls_def nova_run)
  have n2: "requests_get nova_world nova_uri = Response 200 nova_body"
    and n3: "json_loads nova_world nova_body = Some nova_payload"
    by (simp_all add: nova_world_def)
  show ?thesis
    using r1 r2 r3 n1 n2 n3
      payload_logged_once_before_restart [OF r1 r2 r3]
      payload_logged_once_before_restart [OF n1 n2 n3]
    by (simp add: nova_logger nova_dumps sick_dumps)
qed

section \<open>The setting that is never read\<close>














section \<open>A section without a usable port\<close>

text \<open>
  C9. The header of the script promises exit code 2 and a critical message for a
  configuration error. A section without \<open>port\<close>, or with a \<open>port\<close> that is not an
  integer, is not treated so: \<open>getint\<close> raises inside \<open>run_check\<close>, where nothing
  catches it, so the run ends with the traceback of that exception and exit status 1;
  the only call before it is the first debug message, and nothing is logged at critical
  level.
\<close>

theorem unusable_port_ends_with_status_1:
  "conf_file no_port_world = Parsed [''nova-api'' \<mapsto> nova_section(''port'' := None)]
   \<and> has_section [''nova-api'' \<mapsto> nova_section(''port'' := None)] (srv nova_args)
   \<and> main no_port_world nova_args =
       ([Log ''healthcheck.nova-api'' DEBUG ''Loading healthcheck for nova-api.service''],
        NoOptionError ''port'' ''nova-api'')
   \<and> exit_code no_port_world nova_args = 1
   \<and> conf_file bad_port_world = Parsed [''nova-api'' \<mapsto> nova_section(''port'' \<mapsto> ''http'')]
   \<and> py_int ''http'' = None
   \<and> main bad_port_world nova_args =
       ([Log ''healthcheck.nova-api'' DEBUG ''Loading healthcheck for nova-api.service''],
        ValueError ''http'')
   \<and> exit_code bad_port_world nova_args = 1"
proof -
  have i: "py_int ''http'' = None"
    by (simp add: py_int_def py_strip_def is_space_def is_digit_def)
  have n: "check_uri [''nova-api'' \<mapsto> nova_section(''port'' := None)] ''nova-api''
             = Inl (NoOptionError ''port'' ''nova-api'')"
    by (simp add: check_uri_def nova_section_def cfg_getboolean_fallback_def cfg_get_def
          cfg_getint_def py_lower_def lower_char_def)
  have b: "check_uri [''nova-api'' \<mapsto> nova_section(''port'' \<mapsto> ''http'')] ''nova-api''
             = Inl (ValueError ''http'')"
    by (simp add: check_uri_def nova_section_def cfg_getboolean_fallback_def cfg_get_def
          cfg_getint_def py_lower_def lower_char_def i)
  have "main no_port_world nova_args =
       ([Log ''healthcheck.nova-api'' DEBUG ''Loading healthcheck for nova-api.service''],
        NoOptionError ''port'' ''nova-api'')"
    by (simp add: no_port_world_def nova_world_def main_def load_config_def run_check_def
          has_section_def nova_srv nova_logger nova_service n)
  moreover have "main bad_port_world nova_args =
       ([Log ''healthcheck.nova-api'' DEBUG ''Loading healthcheck for nova-api.service''],
        ValueError ''http'')"
    by (simp add: bad_port_world_def nova_world_def main_def load_config_def run_check_def
          has_section_def nova_srv nova_logger nova_service b)
  ultimately show ?thesis
    by (simp add: exit_code_def i has_section_def nova_srv)
       (simp add: no_port_world_def bad_port_world_def nova_world_def)
qed

section \<open>The service name\<close>

text \<open>
  C10, as stated, says that the name is the argument without its final dot-separated
  extension for every argument. For the argument \<open>.service\<close> that would be the empty
  name; \<open>splitext\<close> does not take a leading dot for the start of an extension, and
  the name is \<open>.service\<close>.
\<close>

theorem leading_dot_is_not_an_extension:
  "service dotfile_args = ''.service''
   \<and> final_extension_removed (service dotfile_args) = []
   \<and> srv dotfile_args = ''.service''"
  by (simp add: dotfile_args_def final_extension_removed_def srv_def splitext_def
        splitext_scan.simps)

text \<open>
  C10, amended. The name is the stem that \<open>os.path.splitext\<close> gives for the argument.
  When the last dot of the argument lies in its last path component and has a character
  other than a dot before it there, the name is the argument up to that dot, whatever
  follows the dot. An argument without a dot is used unchanged, and so is one whose last
  component has nothing but dots before its text. The name is the section looked up in
  the file (a loaded file gives exit code 2 exactly when it has no section of that
  name), the suffix of the logger name of every message, and, followed by
  \<open>.service\<close>, the unit of every restart request.
\<close>

theorem service_name_is_splitext_stem:
  "(\<forall>stem pre c rest ext.
      service a = stem @ CHR ''.'' # ext \<and> stem = pre @ c # rest
      \<and> c \<noteq> CHR ''.'' \<and> c \<noteq> CHR ''/'' \<and> CHR ''/'' \<notin> set rest
      \<and> CHR ''.'' \<notin> set ext \<and> CHR ''/'' \<notin> set ext \<longrightarrow> srv a = stem)
   \<and> (CHR ''.'' \<notin> set (service a) \<longrightarrow> srv a = service a)
   \<and> (\<forall>pre n ext.
      service a = pre @ replicate n CHR ''.'' @ ext \<and> (pre = [] \<or> last pre = CHR ''/'')
      \<and> CHR ''.'' \<notin> set ext \<and> CHR ''/'' \<notin> set ext \<longrightarrow> srv a = service a)
   \<and> (\<forall>cfg. conf_file w = Parsed cfg \<longrightarrow> (exit_code w a = 2 \<longleftrightarrow> cfg (srv a) = None))
   \<and> (\<forall>n l m. Log n l m \<in> set (calls w a) \<longrightarrow> n = ''healthcheck.'' @ srv a)
   \<and> (\<forall>n m. RestartUnit n m \<in> set (calls w a) \<longrightarrow> n = srv a @ ''.service'')"
proof (intro conjI allI impI)
  fix stem pre c rest ext
  assume "service a = stem @ CHR ''.'' # ext \<and> stem = pre @ c # rest
      \<and> c \<noteq> CHR ''.'' \<and> c \<noteq> CHR ''/'' \<and> CHR ''/'' \<notin> set rest
      \<and> CHR ''.'' \<notin> set ext \<and> CHR ''/'' \<notin> set ext"
  then show "srv a = stem"
    using splitext_extension [of stem pre c rest ext] by (simp add: srv_def)
next
  assume "CHR ''.'' \<notin> set (service a)"
  then show "srv a = service a"
    by (simp add: srv_def splitext_no_dot)
next
  fix pre n ext
  assume "service a = pre @ replicate n CHR ''.'' @ ext \<and> (pre = [] \<or> last pre = CHR ''/'')
      \<and> CHR ''.'' \<notin> set ext \<and> CHR ''/'' \<notin> set ext"
  then show "srv a = service a"
    using splitext_leading_dots [of pre ext n] by (simp add: srv_def)
next
  fix cfg
  assume "conf_file w = Parsed cfg"
  then show "exit_code w a = 2 \<longleftrightarrow> cfg (srv a) = None"
    by (simp add: exit_code_2_iff has_section_def)
next
  fix n l m
  assume "Log n l m \<in> set (calls w a)"
  then show "n = ''healthcheck.'' @ srv a"
    using log_names [of n l m w a] by (simp add: logger_name_def)
next
  fix n m
  assume "RestartUnit n m \<in> set (calls w a)"
  then show "n = srv a @ ''.service''"
    using restart_unit_names [of n m w a] by simp
qed

theorem service_name_is_splitext_stem_witness:
  "srv nova_args = ''nova-api''
   \<and> srv \<lparr>service = ''nova-api.anything'', debug = False\<rparr> = ''nova-api''
   \<and> srv \<lparr>service = ''nova-api'', debug = False\<rparr> = ''nova-api''
   \<and> srv \<lparr>service = ''conf.d/nova-api'', debug = False\<rparr> = ''conf.d/nova-api''
   \<and> conf_file restart_world = Parsed [''nova-api'' \<mapsto> restart_section]

   \<and> exit_code restart_world nova_args \<noteq> 2
   \<and> Log ''healthcheck.nova-api'' INFO sick_line \<in> set (calls restart_world nova_args)
   \<and> RestartUnit ''nova-api.service'' ''fail'' \<in> set (calls restart_world nova_args)"
proof -
  let ?any = "\<lparr>service = ''nova-api.anything'', debug = False\<rparr>"
  let ?bare = "\<lparr>service = ''nova-api'', debug = False\<rparr>"
  let ?dir = "\<lparr>service = ''conf.d/nova-api'', debug = False\<rparr>"
  note at_nova = service_name_is_splitext_stem [of nova_args restart_world]
  have 1: "srv nova_args = ''nova-api''"
    by (rule at_nova [THEN conjunct1, rule_format,
          where stem = "''nova-api''" and pre = "''nova-ap''" and c = "CHR ''i''"
            and rest = "[]" and ext = "''service''"])
       (simp add: nova_args_def)
  have 2: "srv ?any = ''nova-api''"
    by (rule service_name_is_splitext_stem [of ?any restart_world, THEN conjunct1, rule_format,
          where stem = "''nova-api''" and pre = "''nova-ap''" and c = "CHR ''i''"
            and rest = "[]" and ext = "''anything''"])
       simp
  have 3: "srv ?bare = service ?bare"
    by (rule service_name_is_splitext_stem [of ?bare restart_world,
          THEN conjunct2, THEN conjunct1, rule_format])
       simp
  have 4: "srv ?dir = service ?dir"
    by (rule service_name_is_splitext_stem [of ?dir restart_world,
          THEN conjunct2, THEN conjunct2, THEN conjunct1, rule_format,
          where pre = "''conf.d/''" and n = 0 and ext = "''nova-api''"])
       simp
  have c: "conf_file restart_world = Parsed [''nova-api'' \<mapsto> restart_section]"
    by (simp add: restart_world_def down_world_def nova_world_def)
  have l: "Log ''healthcheck.nova-api'' INFO sick_line \<in> set (calls restart_world nova_args)"
    and r: "RestartUnit ''nova-api.service'' ''fail'' \<in> set (calls restart_world nova_args)"
    by (simp_all add: calls_def restart_run)
  have 5: "exit_code restart_world nova_args = 2
             \<longleftrightarrow> [''nova-api'' \<mapsto> restart_section] (srv nova_args) = None"
    by (rule at_nova [THEN conjunct2, THEN conjunct2, THEN conjunct2, THEN conjunct1,
          rule_format, OF c])
  have 6: "''healthcheck.nova-api'' = ''healthcheck.'' @ srv nova_args"
    by (rule at_nova [THEN conjunct2, THEN conjunct2, THEN conjunct2, THEN conjunct2,
          THEN conjunct1, rule_format, OF l])
  have 7: "''nova-api.service'' = srv nova_args @ ''.service''"
    by (rule at_nova [THEN conjunct2, THEN conjunct2, THEN conjunct2, THEN conjunct2,
          THEN conjunct2, rule_format, OF r])
  from 5 have 8: "exit_code restart_world nova_args \<noteq> 2"
    by (simp add: 1)
  show ?thesis
    using 1 2 3 4 c l r 6 [symmetric] 7 [symmetric] 8 by simp
qed

end
